theory Spec2Isabelle
  imports Main
begin

section \<open>Errors, outcomes and the log\<close>

text \<open>
  Error values that reach the sink. \<open>FieldNotFound\<close> is what a field lookup on a
  record reports for the named field; \<open>ClientError\<close> stands for an error value
  handed back by the search-engine client library (client construction, bulk
  call, ping); \<open>ErrorsNew\<close> is \<^verbatim>\<open>errors.New(msg)\<close>.
\<close>

datatype error =
    FieldNotFound string
  | ClientError string
  | ErrorsNew string

text \<open>A Go call either returns a value or panics with an error value.\<close>

datatype 'a outcome = Returned 'a | Panicked error

type_synonym Logger = nat

text \<open>
  \<^verbatim>\<open>level.Error(logger).Log("err", err, "message", msg)\<close> and
  \<^verbatim>\<open>level.Info(logger).Log("message", msg)\<close>.
\<close>

datatype LogEntry =
    LogError Logger error string
  | LogInfo Logger string

section \<open>Records and configuration\<close>

text \<open>
  Modelled from the spec: the type \<^verbatim>\<open>models.Record\<close> and its methods
  \<^verbatim>\<open>FormatTimestamp\<close>, \<^verbatim>\<open>GetId\<close>, \<^verbatim>\<open>GetValueForField\<close> and
  \<^verbatim>\<open>FilteredFieldsJSON\<close> are not part of the given source. The spec describes a
  record as a source topic, a default identifier, a formatted timestamp string
  and a set of named fields with string value lookup.
\<close>

record Record =
  Topic :: string
  ident :: string
  timestamp :: string
  field_set :: "string \<rightharpoonup> string"

text \<open>Modelled from the spec: the record's formatted timestamp string.\<close>

definition FormatTimestamp :: "Record \<Rightarrow> string" where
  "FormatTimestamp record = timestamp record"

text \<open>Modelled from the spec: the record's default identifier.\<close>

definition GetId :: "Record \<Rightarrow> string" where
  "GetId record = ident record"

text \<open>
  Modelled from the spec: per-field string value lookup, which fails with
  \<open>FieldNotFound\<close> if the field is absent.
\<close>

definition GetValueForField :: "Record \<Rightarrow> string \<Rightarrow> error + string" where
  "GetValueForField record field =
     (case field_set record field of
        None \<Rightarrow> Inl (FieldNotFound field)
      | Some v \<Rightarrow> Inr v)"

text \<open>
  Modelled from the spec: the filtered field set, all fields minus a configured
  blacklist.
\<close>

definition FilteredFieldsJSON :: "Record \<Rightarrow> string list \<Rightarrow> (string \<rightharpoonup> string)" where
  "FilteredFieldsJSON record blacklist = field_set record |` (- set blacklist)"

text \<open>
  The \<^verbatim>\<open>Config\<close> struct, with the fields the sink reads:
  \<^verbatim>\<open>Host\<close>, \<^verbatim>\<open>BulkTimeout\<close>, \<^verbatim>\<open>Index\<close>, \<^verbatim>\<open>IndexColumn\<close>,
  \<^verbatim>\<open>DocIDColumn\<close>, \<^verbatim>\<open>BlacklistedColumns\<close>.
\<close>

record Config =
  Host :: string
  BulkTimeout :: int
  Index :: string
  IndexColumn :: string
  DocIDColumn :: string
  BlacklistedColumns :: "string list"

record recordDatabase =
  logger :: Logger
  config :: Config

section \<open>The client library and the process state\<close>

type_synonym Client = nat

record BulkIndexRequest =
  req_Index :: string
  req_Type :: string
  req_Id :: string
  req_Doc :: "string \<rightharpoonup> string"

record BulkService =
  bs_client :: Client
  requests :: "BulkIndexRequest list"

record ErrorDetails =
  err_Type :: string
  err_Reason :: string

record BulkResponseItem =
  item_Id :: string
  item_Status :: int
  item_Error :: "ErrorDetails option"

text \<open>
  The bulk response as the sink reads it: the \<^verbatim>\<open>Errors\<close> flag and the list
  that \<^verbatim>\<open>res.Failed()\<close> returns.
\<close>

record BulkResponse =
  Errors :: bool
  Failed :: "BulkResponseItem list"

record PingResult =
  VersionNumber :: string

text \<open>
  What the outside answers, taken as parameters: whether
  \<^verbatim>\<open>elastic.NewClient\<close> fails for a host, what \<^verbatim>\<open>bulkRequest.Do\<close> and the
  ping's \<^verbatim>\<open>Do\<close> return, and how \<^verbatim>\<open>fmt.Sprintf("%v", ...)\<close> renders the
  error details of a response item.
\<close>

record env =
  NewClient :: "string \<Rightarrow> error option"
  BulkDo :: "BulkService \<Rightarrow> int \<Rightarrow> error + BulkResponse"
  PingDo :: "Client \<Rightarrow> string \<Rightarrow> error + PingResult"
  Sprintf_v :: "ErrorDetails option \<Rightarrow> string"

text \<open>
  The process state: the package-level variable \<^verbatim>\<open>esClient\<close>, and a trace of
  the effects on the outside. A client created by the \<open>n\<close>-th call of
  \<^verbatim>\<open>elastic.NewClient\<close> is the handle \<open>n\<close>; \<open>open_clients\<close> holds the
  handles created and not yet stopped.
\<close>

record world =
  esClient :: "Client option"
  NewClient_calls :: "string list"
  open_clients :: "Client list"
  Do_calls :: "(BulkService \<times> int) list"
  Ping_calls :: "(Client \<times> string) list"
  logged :: "LogEntry list"

definition Log :: "LogEntry \<Rightarrow> world \<Rightarrow> world" where
  "Log entry w = w\<lparr>logged := logged w @ [entry]\<rparr>"

section \<open>The sink\<close>

definition GetClient :: "env \<Rightarrow> recordDatabase \<Rightarrow> world \<Rightarrow> Client outcome \<times> world" where
  "GetClient e d w =
     (case esClient w of
        None \<Rightarrow>
          (let w1 = w\<lparr>NewClient_calls := NewClient_calls w @ [Host (config d)]\<rparr> in
           case NewClient e (Host (config d)) of
             Some err \<Rightarrow>
               (Panicked err,
                Log (LogError (logger d) err ''could not init elasticsearch client'') w1)
           | None \<Rightarrow>
               (let client = length (NewClient_calls w) in
                (Returned client,
                 w1\<lparr>esClient := Some client,
                    open_clients := open_clients w1 @ [client]\<rparr>)))
      | Some client \<Rightarrow> (Returned client, w))"

definition CloseClient :: "recordDatabase \<Rightarrow> world \<Rightarrow> world" where
  "CloseClient d w =
     (case esClient w of
        Some client \<Rightarrow>
          w\<lparr>open_clients := removeAll client (open_clients w), esClient := None\<rparr>
      | None \<Rightarrow> w)"

text \<open>\<^verbatim>\<open>fmt.Sprintf("%s-%s", a, b)\<close>\<close>

definition Sprintf_s_dash_s :: "string \<Rightarrow> string \<Rightarrow> string" where
  "Sprintf_s_dash_s a b = a @ ''-'' @ b"

definition getDatabaseIndex ::
  "recordDatabase \<Rightarrow> Record \<Rightarrow> world \<Rightarrow> (error + string) \<times> world" where
  "getDatabaseIndex d record w =
     (let indexPrefix = Index (config d);
          indexPrefix = (if indexPrefix = [] then Topic record else indexPrefix);
          indexColumn = IndexColumn (config d);
          indexSuffix = FormatTimestamp record
      in if indexColumn \<noteq> [] then
           (case GetValueForField record indexColumn of
              Inl err \<Rightarrow>
                (Inl err,
                 Log (LogError (logger d) err ''Could not get column value from record.'') w)
            | Inr newIndexSuffix \<Rightarrow> (Inr (Sprintf_s_dash_s indexPrefix newIndexSuffix), w))
         else (Inr (Sprintf_s_dash_s indexPrefix indexSuffix), w))"

definition getDatabaseDocID ::
  "recordDatabase \<Rightarrow> Record \<Rightarrow> world \<Rightarrow> (error + string) \<times> world" where
  "getDatabaseDocID d record w =
     (let docID = GetId record;
          docIDColumn = DocIDColumn (config d)
      in if docIDColumn \<noteq> [] then
           (case GetValueForField record docIDColumn of
              Inl err \<Rightarrow>
                (Inl err,
                 Log (LogError (logger d) err ''Could not get doc id value from record.'') w)
            | Inr newDocID \<Rightarrow> (Inr newDocID, w))
         else (Inr docID, w))"

text \<open>\<^verbatim>\<open>client.Bulk()\<close> and \<^verbatim>\<open>bulkRequest.Add(request)\<close>.\<close>

definition Bulk :: "Client \<Rightarrow> BulkService" where
  "Bulk client = \<lparr>bs_client = client, requests = []\<rparr>"

definition Add :: "BulkService \<Rightarrow> BulkIndexRequest \<Rightarrow> BulkService" where
  "Add bulkRequest request = bulkRequest\<lparr>requests := requests bulkRequest @ [request]\<rparr>"

text \<open>The body of the \<^verbatim>\<open>for _, record := range records\<close> loop of buildBulkRequest.\<close>

fun buildBulkRequest_loop ::
  "recordDatabase \<Rightarrow> Record list \<Rightarrow> BulkService \<Rightarrow> world \<Rightarrow> (error + BulkService) \<times> world" where
  "buildBulkRequest_loop d [] bulkRequest w = (Inr bulkRequest, w)"
| "buildBulkRequest_loop d (record # records) bulkRequest w =
     (case getDatabaseIndex d record w of
        (Inl err, w1) \<Rightarrow> (Inl err, w1)
      | (Inr index, w1) \<Rightarrow>
          (case getDatabaseDocID d record w1 of
             (Inl err, w2) \<Rightarrow> (Inl err, w2)
           | (Inr docID, w2) \<Rightarrow>
               buildBulkRequest_loop d records
                 (Add bulkRequest
                    \<lparr>req_Index = index,
                     req_Type = Topic record,
                     req_Id = docID,
                     req_Doc = FilteredFieldsJSON record (BlacklistedColumns (config d))\<rparr>)
                 w2))"

definition buildBulkRequest ::
  "env \<Rightarrow> recordDatabase \<Rightarrow> Record list \<Rightarrow> world \<Rightarrow> (error + BulkService) outcome \<times> world" where
  "buildBulkRequest e d records w =
     (case GetClient e d w of
        (Panicked err, w1) \<Rightarrow> (Panicked err, w1)
      | (Returned client, w1) \<Rightarrow>
          (case buildBulkRequest_loop d records (Bulk client) w1 of
             (r, w2) \<Rightarrow> (Returned r, w2)))"

text \<open>
  Insert returns a Go \<^verbatim>\<open>error\<close>: \<open>None\<close> is \<^verbatim>\<open>nil\<close>. The call of
  \<^verbatim>\<open>bulkRequest.Do\<close> is recorded in \<open>Do_calls\<close> with the configured timeout.
\<close>

definition Insert ::
  "env \<Rightarrow> recordDatabase \<Rightarrow> Record list \<Rightarrow> world \<Rightarrow> error option outcome \<times> world" where
  "Insert e d records w =
     (case buildBulkRequest e d records w of
        (Panicked perr, w1) \<Rightarrow> (Panicked perr, w1)
      | (Returned (Inl err), w1) \<Rightarrow> (Returned (Some err), w1)
      | (Returned (Inr bulkRequest), w1) \<Rightarrow>
          (let timeout = BulkTimeout (config d);
               w2 = w1\<lparr>Do_calls := Do_calls w1 @ [(bulkRequest, timeout)]\<rparr>
           in case BulkDo e bulkRequest timeout of
                Inr res \<Rightarrow>
                  (if Errors res then
                     (case Failed res of
                        f # _ \<Rightarrow> (Returned (Some (ErrorsNew (Sprintf_v e (item_Error f)))), w2)
                      | [] \<Rightarrow> (Returned None, w2))
                   else (Returned None, w2))
              | Inl err \<Rightarrow> (Returned (Some err), w2)))"

definition ReadinessCheck :: "env \<Rightarrow> recordDatabase \<Rightarrow> world \<Rightarrow> bool outcome \<times> world" where
  "ReadinessCheck e d w =
     (case GetClient e d w of
        (Panicked perr, w1) \<Rightarrow> (Panicked perr, w1)
      | (Returned client, w1) \<Rightarrow>
          (let w2 = w1\<lparr>Ping_calls := Ping_calls w1 @ [(client, Host (config d))]\<rparr>
           in case PingDo e client (Host (config d)) of
                Inl err \<Rightarrow>
                  (Returned False,
                   Log (LogError (logger d) err ''error pinging elasticsearch'') w2)
              | Inr info \<Rightarrow>
                  (Returned True,
                   Log (LogInfo (logger d) (''connected to es version '' @ VersionNumber info)) w2)))"

section \<open>Notions used to state the properties\<close>

text \<open>
  The collection name in the spec's words: the prefix is the configured prefix,
  or the record's topic when the configured prefix is the empty string; the
  suffix is the record's formatted timestamp unless a suffix column is
  configured, and then it is the value of that field on the record, with
  \<open>FieldNotFound\<close> when the record lacks it; the name is prefix, a dash, suffix.
\<close>

definition collection_prefix :: "Config \<Rightarrow> Record \<Rightarrow> string" where
  "collection_prefix c r = (if Index c = [] then Topic r else Index c)"

definition collection_name :: "Config \<Rightarrow> Record \<Rightarrow> error + string" where
  "collection_name c r =
     (if IndexColumn c = [] then Inr (collection_prefix c r @ ''-'' @ timestamp r)
      else (case field_set r (IndexColumn c) of
              None \<Rightarrow> Inl (FieldNotFound (IndexColumn c))
            | Some v \<Rightarrow> Inr (collection_prefix c r @ ''-'' @ v)))"

text \<open>
  The document key in the spec's words: the record's default identifier unless
  a key column is configured, and then the value of that field on the record,
  with \<open>FieldNotFound\<close> when it is absent.
\<close>

definition document_key :: "Config \<Rightarrow> Record \<Rightarrow> error + string" where
  "document_key c r =
     (if DocIDColumn c = [] then Inr (ident r)
      else (case field_set r (DocIDColumn c) of
              None \<Rightarrow> Inl (FieldNotFound (DocIDColumn c))
            | Some v \<Rightarrow> Inr v))"

text \<open>
  The error, if any, that deriving the collection name and then the document
  key of one record gives, and the first such error along a batch.
\<close>

definition derivation_error :: "recordDatabase \<Rightarrow> Record \<Rightarrow> world \<Rightarrow> error option" where
  "derivation_error d r w =
     (case fst (getDatabaseIndex d r w) of
        Inl err \<Rightarrow> Some err
      | Inr _ \<Rightarrow>
          (case fst (getDatabaseDocID d r w) of
             Inl err \<Rightarrow> Some err
           | Inr _ \<Rightarrow> None))"

fun first_derivation_error :: "recordDatabase \<Rightarrow> Record list \<Rightarrow> world \<Rightarrow> error option" where
  "first_derivation_error d [] w = None"
| "first_derivation_error d (r # rs) w =
     (case derivation_error d r w of
        Some err \<Rightarrow> Some err
      | None \<Rightarrow> first_derivation_error d rs w)"

text \<open>Two worlds that differ at most in the log.\<close>

definition same_outside :: "world \<Rightarrow> world \<Rightarrow> bool" where
  "same_outside w w' = (w'\<lparr>logged := logged w\<rparr> = w)"

text \<open>The two states of the connection, read off the package-level variable.\<close>

datatype connection = DISCONNECTED | CONNECTED

definition connection_state :: "world \<Rightarrow> connection" where
  "connection_state w = (case esClient w of None \<Rightarrow> DISCONNECTED | Some _ \<Rightarrow> CONNECTED)"

text \<open>The open client handles are exactly the one held in \<^verbatim>\<open>esClient\<close>, if any.\<close>

definition one_connection :: "world \<Rightarrow> bool" where
  "one_connection w =
     (open_clients w = (case esClient w of None \<Rightarrow> [] | Some client \<Rightarrow> [client]))"

text \<open>A use of the sink: one of its four operations, and the world it leaves.\<close>

datatype use = UseInsert "Record list" | UseReadinessCheck | UseGetClient | UseCloseClient

fun after_use :: "env \<Rightarrow> recordDatabase \<Rightarrow> use \<Rightarrow> world \<Rightarrow> world" where
  "after_use e d (UseInsert records) w = snd (Insert e d records w)"
| "after_use e d UseReadinessCheck w = snd (ReadinessCheck e d w)"
| "after_use e d UseGetClient w = snd (GetClient e d w)"
| "after_use e d UseCloseClient w = CloseClient d w"

fun panic_of_use :: "env \<Rightarrow> recordDatabase \<Rightarrow> use \<Rightarrow> world \<Rightarrow> error option" where
  "panic_of_use e d (UseInsert records) w =
     (case fst (Insert e d records w) of Panicked err \<Rightarrow> Some err | Returned _ \<Rightarrow> None)"
| "panic_of_use e d UseReadinessCheck w =
     (case fst (ReadinessCheck e d w) of Panicked err \<Rightarrow> Some err | Returned _ \<Rightarrow> None)"
| "panic_of_use e d UseGetClient w =
     (case fst (GetClient e d w) of Panicked err \<Rightarrow> Some err | Returned _ \<Rightarrow> None)"
| "panic_of_use e d UseCloseClient w = None"

section \<open>Concrete inputs\<close>

definition world0 :: world where
  "world0 = \<lparr>esClient = None, NewClient_calls = [], open_clients = [], Do_calls = [],
             Ping_calls = [], logged = []\<rparr>"

text \<open>The world after a first successful connect to the default host.\<close>

definition world_connected :: world where
  "world_connected =
     world0\<lparr>NewClient_calls := [''http://localhost:9200''], esClient := Some 0,
            open_clients := [0]\<rparr>"

definition config_default :: Config where
  "config_default = \<lparr>Host = ''http://localhost:9200'', BulkTimeout = 10, Index = [],
                     IndexColumn = [], DocIDColumn = [], BlacklistedColumns = []\<rparr>"

definition record_orders :: Record where
  "record_orders = \<lparr>Topic = ''orders'', ident = ''42'', timestamp = ''2024-01-01'',
                    field_set = [''region'' \<mapsto> ''us-east'', ''secret'' \<mapsto> ''x'']\<rparr>"

definition db :: "Config \<Rightarrow> recordDatabase" where
  "db c = \<lparr>logger = 0, config = c\<rparr>"

definition db_custom :: recordDatabase where
  "db_custom = db (config_default\<lparr>Index := ''custom'', IndexColumn := ''region''\<rparr>)"

definition db_missing :: recordDatabase where
  "db_missing = db (config_default\<lparr>IndexColumn := ''missing_field''\<rparr>)"

definition db_blacklist :: recordDatabase where
  "db_blacklist = db (config_default\<lparr>BlacklistedColumns := [''secret'']\<rparr>)"

definition response_ok :: BulkResponse where
  "response_ok = \<lparr>Errors = False, Failed = []\<rparr>"

definition failed_item :: "string \<Rightarrow> string \<Rightarrow> BulkResponseItem" where
  "failed_item i reason =
     \<lparr>item_Id = i, item_Status = 400,
      item_Error = Some \<lparr>err_Type = ''mapper_parsing_exception'', err_Reason = reason\<rparr>\<rparr>"

definition response_two_failures :: BulkResponse where
  "response_two_failures =
     \<lparr>Errors = True, Failed = [failed_item ''1'' ''bad date'', failed_item ''2'' ''bad number'']\<rparr>"

definition response_flag_only :: BulkResponse where
  "response_flag_only = \<lparr>Errors = True, Failed = []\<rparr>"

definition render :: "ErrorDetails option \<Rightarrow> string" where
  "render x = (case x of None \<Rightarrow> ''<nil>'' | Some details \<Rightarrow> err_Type details @ '': '' @ err_Reason details)"

text \<open>An outside in which every call succeeds, with the given bulk response.\<close>

definition env_up :: "BulkResponse \<Rightarrow> env" where
  "env_up res =
     \<lparr>NewClient = (\<lambda>host. None),
      BulkDo = (\<lambda>bulkRequest timeout. Inr res),
      PingDo = (\<lambda>client host. Inr \<lparr>VersionNumber = ''6.8.0''\<rparr>),
      Sprintf_v = render\<rparr>"

text \<open>An outside in which the datastore is unreachable.\<close>

definition env_down :: env where
  "env_down =
     \<lparr>NewClient = (\<lambda>host. Some (ClientError ''no Elasticsearch node available'')),
      BulkDo = (\<lambda>bulkRequest timeout. Inl (ClientError ''connection refused'')),
      PingDo = (\<lambda>client host. Inl (ClientError ''connection refused'')),
      Sprintf_v = render\<rparr>"

text \<open>An outside in which the client can be created and every later call fails.\<close>

definition env_flaky :: env where
  "env_flaky = env_down\<lparr>NewClient := (\<lambda>host. None)\<rparr>"

section \<open>Derivation of the collection name and the document key\<close>

lemma getDatabaseIndex_value:
  "fst (getDatabaseIndex d r w) = collection_name (config d) r"
  by (simp add: getDatabaseIndex_def collection_name_def collection_prefix_def
      GetValueForField_def FormatTimestamp_def Sprintf_s_dash_s_def Let_def
      split: option.split)

lemma getDatabaseDocID_value:
  "fst (getDatabaseDocID d r w) = document_key (config d) r"
  by (simp add: getDatabaseDocID_def document_key_def GetValueForField_def GetId_def Let_def
      split: option.split)

lemma getDatabaseIndex_world:
  "snd (getDatabaseIndex d r w) =
     (case fst (getDatabaseIndex d r w) of
        Inl err \<Rightarrow> Log (LogError (logger d) err ''Could not get column value from record.'') w
      | Inr _ \<Rightarrow> w)"
  by (simp add: getDatabaseIndex_def Let_def split: sum.split)

lemma getDatabaseDocID_world:
  "snd (getDatabaseDocID d r w) =
     (case fst (getDatabaseDocID d r w) of
        Inl err \<Rightarrow> Log (LogError (logger d) err ''Could not get doc id value from record.'') w
      | Inr _ \<Rightarrow> w)"
  by (simp add: getDatabaseDocID_def Let_def split: sum.split)

lemma derivation_error_world:
  "derivation_error d r w = derivation_error d r w'"
  by (simp add: derivation_error_def getDatabaseIndex_value getDatabaseDocID_value
      cong: sum.case_cong)

lemma first_derivation_error_world:
  "first_derivation_error d rs w = first_derivation_error d rs w'"
  by (induction rs) (simp_all add: derivation_error_world [of _ _ w w'] cong: option.case_cong)

lemmas example_defs =
  world0_def world_connected_def config_default_def record_orders_def db_def db_custom_def db_missing_def
  db_blacklist_def response_ok_def failed_item_def response_two_failures_def
  response_flag_only_def render_def env_up_def env_down_def env_flaky_def

lemmas sink_defs =
  GetClient_def getDatabaseIndex_def getDatabaseDocID_def GetValueForField_def
  FormatTimestamp_def GetId_def FilteredFieldsJSON_def Sprintf_s_dash_s_def Bulk_def Add_def
  buildBulkRequest_def Insert_def ReadinessCheck_def Log_def Let_def

lemma derivation_error_value:
  "derivation_error d r w =
     (case collection_name (config d) r of
        Inl err \<Rightarrow> Some err
      | Inr _ \<Rightarrow> (case document_key (config d) r of Inl err \<Rightarrow> Some err | Inr _ \<Rightarrow> None))"
  by (simp add: derivation_error_def getDatabaseIndex_value getDatabaseDocID_value
      cong: sum.case_cong)

text \<open>The first derivation error of a batch is the error of its first failing record.\<close>

lemma first_derivation_error_Some:
  "first_derivation_error d rs w = Some err \<longleftrightarrow>
     (\<exists>pre r post. rs = pre @ r # post \<and> (\<forall>p\<in>set pre. derivation_error d p w = None) \<and>
        derivation_error d r w = Some err)"
proof (induction rs)
  case Nil
  show ?case by simp
next
  case (Cons a rs)
  show ?case
  proof (cases "derivation_error d a w")
    case (Some x)
    have "(\<exists>pre r post. a # rs = pre @ r # post \<and>
             (\<forall>p\<in>set pre. derivation_error d p w = None) \<and> derivation_error d r w = Some err)
          \<longleftrightarrow> x = err"
    proof
      assume "\<exists>pre r post. a # rs = pre @ r # post \<and>
                (\<forall>p\<in>set pre. derivation_error d p w = None) \<and> derivation_error d r w = Some err"
      then obtain pre r post where eq: "a # rs = pre @ r # post"
        and pre: "\<forall>p\<in>set pre. derivation_error d p w = None"
        and r: "derivation_error d r w = Some err" by blast
      show "x = err"
      proof (cases pre)
        case Nil
        with eq r Some show ?thesis by simp
      next
        case (Cons b pre')
        with eq pre Some show ?thesis by simp
      qed
    next
      assume "x = err"
      with Some have "a # rs = [] @ a # rs \<and>
                (\<forall>p\<in>set []. derivation_error d p w = None) \<and> derivation_error d a w = Some err"
        by simp
      then show "\<exists>pre r post. a # rs = pre @ r # post \<and>
                (\<forall>p\<in>set pre. derivation_error d p w = None) \<and> derivation_error d r w = Some err"
        by blast
    qed
    with Some show ?thesis by simp
  next
    case None
    have "(\<exists>pre r post. a # rs = pre @ r # post \<and>
             (\<forall>p\<in>set pre. derivation_error d p w = None) \<and> derivation_error d r w = Some err)
          \<longleftrightarrow>
          (\<exists>pre r post. rs = pre @ r # post \<and>
             (\<forall>p\<in>set pre. derivation_error d p w = None) \<and> derivation_error d r w = Some err)"
    proof
      assume "\<exists>pre r post. a # rs = pre @ r # post \<and>
                (\<forall>p\<in>set pre. derivation_error d p w = None) \<and> derivation_error d r w = Some err"
      then obtain pre r post where eq: "a # rs = pre @ r # post"
        and pre: "\<forall>p\<in>set pre. derivation_error d p w = None"
        and r: "derivation_error d r w = Some err" by blast
      show "\<exists>pre r post. rs = pre @ r # post \<and>
                (\<forall>p\<in>set pre. derivation_error d p w = None) \<and> derivation_error d r w = Some err"
      proof (cases pre)
        case Nil
        with eq r None show ?thesis by simp
      next
        case (Cons b pre')
        with eq pre have "rs = pre' @ r # post" "\<forall>p\<in>set pre'. derivation_error d p w = None"
          by simp_all
        with r show ?thesis by blast
      qed
    next
      assume "\<exists>pre r post. rs = pre @ r # post \<and>
                (\<forall>p\<in>set pre. derivation_error d p w = None) \<and> derivation_error d r w = Some err"
      then obtain pre r post where eq: "rs = pre @ r # post"
        and pre: "\<forall>p\<in>set pre. derivation_error d p w = None"
        and r: "derivation_error d r w = Some err" by blast
      with None have "a # rs = (a # pre) @ r # post"
        "\<forall>p\<in>set (a # pre). derivation_error d p w = None" by simp_all
      with r show "\<exists>pre r post. a # rs = pre @ r # post \<and>
                (\<forall>p\<in>set pre. derivation_error d p w = None) \<and> derivation_error d r w = Some err"
        by blast
    qed
    with None Cons.IH show ?thesis by simp
  qed
qed

section \<open>The client handle, the request loop and Insert\<close>

lemma GetClient_connected:
  "esClient w = Some client \<Longrightarrow> GetClient e d w = (Returned client, w)"
  by (simp add: GetClient_def)

lemma GetClient_connect_ok:
  "esClient w = None \<Longrightarrow> NewClient e (Host (config d)) = None \<Longrightarrow>
   GetClient e d w =
     (Returned (length (NewClient_calls w)),
      w\<lparr>NewClient_calls := NewClient_calls w @ [Host (config d)],
        esClient := Some (length (NewClient_calls w)),
        open_clients := open_clients w @ [length (NewClient_calls w)]\<rparr>)"
  by (simp add: GetClient_def Let_def)

lemma GetClient_connect_fail:
  "esClient w = None \<Longrightarrow> NewClient e (Host (config d)) = Some err \<Longrightarrow>
   GetClient e d w =
     (Panicked err,
      Log (LogError (logger d) err ''could not init elasticsearch client'')
        (w\<lparr>NewClient_calls := NewClient_calls w @ [Host (config d)]\<rparr>))"
  by (simp add: GetClient_def Let_def)

lemma GetClient_traces:
  "Do_calls (snd (GetClient e d w)) = Do_calls w \<and>
   Ping_calls (snd (GetClient e d w)) = Ping_calls w"
  by (simp add: GetClient_def Let_def Log_def split: option.split)

lemma GetClient_Returned:
  "GetClient e d w = (Returned client, w1) \<Longrightarrow> esClient w1 = Some client"
  by (auto simp: GetClient_def Let_def split: option.splits)

lemma same_outside_refl: "same_outside w w"
  by (simp add: same_outside_def)

lemma same_outside_Log: "same_outside w (Log entry w)"
  by (simp add: same_outside_def Log_def)

lemma same_outside_trans: "same_outside w w1 \<Longrightarrow> same_outside w1 w2 \<Longrightarrow> same_outside w w2"
  by (cases w, cases w1, cases w2) (simp add: same_outside_def)

lemma same_outside_fields:
  "same_outside w w' \<Longrightarrow>
   esClient w' = esClient w \<and> NewClient_calls w' = NewClient_calls w \<and>
   open_clients w' = open_clients w \<and> Do_calls w' = Do_calls w \<and>
   Ping_calls w' = Ping_calls w"
  by (cases w, cases w') (simp add: same_outside_def)

lemma index_fails:
  "getDatabaseIndex d r w = (Inl err, w1) \<Longrightarrow>
   derivation_error d r w = Some err \<and> same_outside w w1"
  using getDatabaseIndex_world [of d r w]
  by (simp add: derivation_error_def same_outside_Log)

lemma index_succeeds: "getDatabaseIndex d r w = (Inr i, w1) \<Longrightarrow> w1 = w"
  using getDatabaseIndex_world [of d r w] by simp

lemma docID_fails:
  "getDatabaseIndex d r w = (Inr i, w1) \<Longrightarrow> getDatabaseDocID d r w1 = (Inl err, w2) \<Longrightarrow>
   derivation_error d r w = Some err \<and> same_outside w w2"
  using getDatabaseIndex_world [of d r w] getDatabaseDocID_world [of d r w]
  by (simp add: derivation_error_def same_outside_Log)

lemma docID_succeeds:
  "getDatabaseIndex d r w = (Inr i, w1) \<Longrightarrow> getDatabaseDocID d r w1 = (Inr k, w2) \<Longrightarrow>
   derivation_error d r w = None \<and> w2 = w"
  using getDatabaseIndex_world [of d r w] getDatabaseDocID_world [of d r w]
  by (simp add: derivation_error_def)

lemma buildBulkRequest_loop_result:
  "buildBulkRequest_loop d rs b w = (res, w') \<Longrightarrow>
   same_outside w w' \<and>
   (case first_derivation_error d rs w of
      Some err \<Rightarrow> res = Inl err
    | None \<Rightarrow>
        w' = w \<and>
        (\<exists>b'. res = Inr b' \<and> bs_client b' = bs_client b \<and>
           map req_Doc (requests b') =
             map req_Doc (requests b) @
             map (\<lambda>r. FilteredFieldsJSON r (BlacklistedColumns (config d))) rs))"
proof (induction rs arbitrary: b w)
  case Nil
  then show ?case by (auto simp: same_outside_refl)
next
  case (Cons r rs)
  obtain x w1 where ix: "getDatabaseIndex d r w = (x, w1)"
    by (cases "getDatabaseIndex d r w")
  show ?case
  proof (cases x)
    case (Inl err)
    with ix Cons.prems index_fails [of d r w err w1] show ?thesis by simp
  next
    case (Inr i)
    obtain y w2 where dx: "getDatabaseDocID d r w1 = (y, w2)"
      by (cases "getDatabaseDocID d r w1")
    show ?thesis
    proof (cases y)
      case (Inl err)
      with ix dx Inr Cons.prems docID_fails [of d r w i w1 err w2] show ?thesis by simp
    next
      case (Inr k)
      from ix dx \<open>x = Inr i\<close> Inr docID_succeeds [of d r w i w1 k w2]
      have ok: "derivation_error d r w = None" and w2: "w2 = w" by simp_all
      let ?b = "Add b \<lparr>req_Index = i, req_Type = Topic r, req_Id = k,
                  req_Doc = FilteredFieldsJSON r (BlacklistedColumns (config d))\<rparr>"
      from ix dx \<open>x = Inr i\<close> Inr w2 Cons.prems
      have rec: "buildBulkRequest_loop d rs ?b w = (res, w')" by simp
      from Cons.IH [OF rec] ok show ?thesis
        by (auto simp: Add_def split: option.splits)
    qed
  qed
qed


lemma buildBulkRequest_Panicked:
  "GetClient e d w = (Panicked perr, w1) \<Longrightarrow>
   buildBulkRequest e d rs w = (Panicked perr, w1)"
  by (simp add: buildBulkRequest_def)

lemma buildBulkRequest_Returned:
  assumes "GetClient e d w = (Returned client, w1)"
  shows "\<exists>res w2. buildBulkRequest e d rs w = (Returned res, w2) \<and> same_outside w1 w2 \<and>
           (case first_derivation_error d rs w of
              Some err \<Rightarrow> res = Inl err
            | None \<Rightarrow>
                w2 = w1 \<and>
                (\<exists>b'. res = Inr b' \<and> bs_client b' = client \<and>
                   map req_Doc (requests b') =
                     map (\<lambda>r. FilteredFieldsJSON r (BlacklistedColumns (config d))) rs))"
proof -
  obtain res w2 where loop: "buildBulkRequest_loop d rs (Bulk client) w1 = (res, w2)"
    by (cases "buildBulkRequest_loop d rs (Bulk client) w1")
  from assms loop have "buildBulkRequest e d rs w = (Returned res, w2)"
    by (simp add: buildBulkRequest_def)
  moreover from buildBulkRequest_loop_result [OF loop]
  have "same_outside w1 w2 \<and>
        (case first_derivation_error d rs w of
           Some err \<Rightarrow> res = Inl err
         | None \<Rightarrow>
             w2 = w1 \<and>
             (\<exists>b'. res = Inr b' \<and> bs_client b' = client \<and>
                map req_Doc (requests b') =
                  map (\<lambda>r. FilteredFieldsJSON r (BlacklistedColumns (config d))) rs))"
    by (simp add: Bulk_def first_derivation_error_world [of d rs w1 w] split: option.splits)
  ultimately show ?thesis by blast
qed

lemma Insert_Panicked:
  "GetClient e d w = (Panicked perr, w1) \<Longrightarrow> Insert e d rs w = (Panicked perr, w1)"
  by (simp add: Insert_def buildBulkRequest_Panicked)

lemma Insert_derivation_fails:
  assumes "GetClient e d w = (Returned client, w1)"
    and "first_derivation_error d rs w = Some err"
  shows "fst (Insert e d rs w) = Returned (Some err) \<and>
         same_outside w1 (snd (Insert e d rs w))"
proof -
  from buildBulkRequest_Returned [OF assms(1), of rs] assms(2)
  obtain w2 where "buildBulkRequest e d rs w = (Returned (Inl err), w2)" "same_outside w1 w2"
    by auto
  then show ?thesis by (simp add: Insert_def)
qed

lemma Insert_after_build:
  assumes "buildBulkRequest e d rs w = (Returned (Inr br), w1)"
  shows "Insert e d rs w =
           (Returned
              (case BulkDo e br (BulkTimeout (config d)) of
                 Inl err \<Rightarrow> Some err
               | Inr res \<Rightarrow>
                   (if Errors res then
                      (case Failed res of
                         [] \<Rightarrow> None
                       | f # _ \<Rightarrow> Some (ErrorsNew (Sprintf_v e (item_Error f))))
                    else None)),
            w1\<lparr>Do_calls := Do_calls w1 @ [(br, BulkTimeout (config d))]\<rparr>)"
  using assms by (simp add: Insert_def Let_def split: sum.split list.split)

lemma exists_first_derivation_error:
  "(\<exists>r\<in>set rs. derivation_error d r w \<noteq> None) = (first_derivation_error d rs w \<noteq> None)"
  by (induction rs) (auto split: option.splits)

lemma buildBulkRequest_Inr:
  assumes "buildBulkRequest e d rs w = (Returned (Inr br), w1)"
  shows "GetClient e d w = (Returned (bs_client br), w1) \<and>
         first_derivation_error d rs w = None \<and>
         map req_Doc (requests br) =
           map (\<lambda>r. FilteredFieldsJSON r (BlacklistedColumns (config d))) rs"
proof -
  obtain r w0 where gc: "GetClient e d w = (r, w0)"
    by (cases "GetClient e d w")
  show ?thesis
  proof (cases r)
    case (Panicked perr)
    with gc assms buildBulkRequest_Panicked [of e d w perr w0 rs] show ?thesis by simp
  next
    case (Returned client)
    with gc buildBulkRequest_Returned [of e d w client w0 rs] assms gc show ?thesis
      by (auto split: option.splits)
  qed
qed

lemma GetClient_env:
  "NewClient e' = NewClient e \<Longrightarrow> GetClient e' d w = GetClient e d w"
  by (simp add: GetClient_def cong: option.case_cong)

lemma buildBulkRequest_env:
  "NewClient e' = NewClient e \<Longrightarrow> buildBulkRequest e' d rs w = buildBulkRequest e d rs w"
  by (simp add: buildBulkRequest_def GetClient_env [of e' e])

section \<open>The uses of the sink and the connection\<close>

lemma Insert_Returned:
  assumes "GetClient e d w = (Returned client, w1)"
  shows "\<exists>v w2. Insert e d rs w = (Returned v, w2) \<and> esClient w2 = esClient w1 \<and>
           NewClient_calls w2 = NewClient_calls w1 \<and> open_clients w2 = open_clients w1"
proof -
  from buildBulkRequest_Returned [OF assms, of rs]
  obtain res w2 where b: "buildBulkRequest e d rs w = (Returned res, w2)"
    and s: "same_outside w1 w2" by blast
  note f = same_outside_fields [OF s]
  show ?thesis
  proof (cases res)
    case (Inl err)
    with b f show ?thesis by (simp add: Insert_def)
  next
    case (Inr br)
    with b Insert_after_build [of e d rs w br w2] f show ?thesis by simp
  qed
qed

lemma ReadinessCheck_Panicked:
  "GetClient e d w = (Panicked perr, w1) \<Longrightarrow> ReadinessCheck e d w = (Panicked perr, w1)"
  by (simp add: ReadinessCheck_def)

lemma ReadinessCheck_Returned:
  assumes "GetClient e d w = (Returned client, w1)"
  shows "\<exists>v w2. ReadinessCheck e d w = (Returned v, w2) \<and> esClient w2 = esClient w1 \<and>
           NewClient_calls w2 = NewClient_calls w1 \<and> open_clients w2 = open_clients w1"
  using assms
  by (cases "PingDo e client (Host (config d))")
     (auto simp: ReadinessCheck_def Let_def Log_def)

lemma use_Panicked:
  assumes "u \<noteq> UseCloseClient" and "GetClient e d w = (Panicked perr, w1)"
  shows "after_use e d u w = w1 \<and> panic_of_use e d u w = Some perr"
  using assms Insert_Panicked [OF assms(2)] ReadinessCheck_Panicked [OF assms(2)]
  by (cases u) simp_all

lemma use_Returned:
  assumes "u \<noteq> UseCloseClient" and "GetClient e d w = (Returned client, w1)"
  shows "panic_of_use e d u w = None \<and> esClient (after_use e d u w) = esClient w1 \<and>
         NewClient_calls (after_use e d u w) = NewClient_calls w1 \<and>
         open_clients (after_use e d u w) = open_clients w1"
proof (cases u)
  case (UseInsert rs)
  with Insert_Returned [OF assms(2), of rs] show ?thesis by auto
next
  case UseReadinessCheck
  with ReadinessCheck_Returned [OF assms(2)] show ?thesis by auto
next
  case UseGetClient
  with assms(2) show ?thesis by simp
next
  case UseCloseClient
  with assms(1) show ?thesis by simp
qed

lemma CloseClient_disconnects:
  "esClient (CloseClient d w) = None \<and> NewClient_calls (CloseClient d w) = NewClient_calls w"
  by (simp add: CloseClient_def split: option.split)

lemma one_connection_GetClient:
  "one_connection w \<Longrightarrow> one_connection (snd (GetClient e d w))"
  by (simp add: one_connection_def GetClient_def Let_def Log_def split: option.split)

lemma one_connection_CloseClient:
  "one_connection w \<Longrightarrow> one_connection (CloseClient d w)"
  by (simp add: one_connection_def CloseClient_def split: option.split)

lemma one_connection_use:
  assumes "one_connection w"
  shows "one_connection (after_use e d u w)"
proof (cases "u = UseCloseClient")
  case True
  with assms one_connection_CloseClient show ?thesis by simp
next
  case False
  obtain r w1 where gc: "GetClient e d w = (r, w1)"
    by (cases "GetClient e d w")
  with one_connection_GetClient [OF assms, of e d] have w1: "one_connection w1" by simp
  show ?thesis
  proof (cases r)
    case (Panicked perr)
    with gc use_Panicked [OF False, of e d w perr w1] w1 show ?thesis by simp
  next
    case (Returned client)
    with gc use_Returned [OF False, of e d w client w1] w1 show ?thesis
      by (simp add: one_connection_def)
  qed
qed

lemma one_connection_initial: "one_connection world0"
  by (simp add: one_connection_def world0_def)

lemma one_connection_at_most_one: "one_connection w \<Longrightarrow> length (open_clients w) \<le> 1"
  by (simp add: one_connection_def split: option.split)

section \<open>The properties\<close>

text \<open>
  C1. For every record and configuration, the collection name that
  getDatabaseIndex derives is the prefix, a dash and the suffix: the prefix is
  the configured prefix, or the record's topic when the configured prefix is
  the empty string; the suffix is the record's formatted timestamp, unless a
  suffix column is configured, in which case it is the value of that field on
  the record, and the derivation fails with FieldNotFound when the record
  lacks that field.
\<close>

theorem getDatabaseIndex_collection_name:
  "fst (getDatabaseIndex d r w) = collection_name (config d) r"
  by (simp add: getDatabaseIndex_def collection_name_def collection_prefix_def
      GetValueForField_def FormatTimestamp_def Sprintf_s_dash_s_def Let_def
      split: option.split)

theorem getDatabaseIndex_collection_name_witness:
  "fst (getDatabaseIndex
          (db (config_default\<lparr>Index := ''custom'', IndexColumn := ''region''\<rparr>))
          record_orders world0) = Inr ''custom-us-east''
   \<and> fst (getDatabaseIndex (db config_default) record_orders world0) = Inr ''orders-2024-01-01''
   \<and> fst (getDatabaseIndex (db (config_default\<lparr>IndexColumn := ''missing_field''\<rparr>))
            record_orders world0) = Inl (FieldNotFound ''missing_field'')"
  using getDatabaseIndex_collection_name
          [of "db (config_default\<lparr>Index := ''custom'', IndexColumn := ''region''\<rparr>)"
              record_orders world0]
        getDatabaseIndex_collection_name [of "db config_default" record_orders world0]
        getDatabaseIndex_collection_name
          [of "db (config_default\<lparr>IndexColumn := ''missing_field''\<rparr>)" record_orders world0]
  by (simp add: collection_name_def collection_prefix_def db_def config_default_def
      record_orders_def)

text \<open>
  C2. For every record and configuration, the document key that
  getDatabaseDocID derives is the record's default identifier, unless a
  document-key column is configured (non-empty), in which case it is the value
  of that field on the record, and the derivation fails with FieldNotFound
  when that field is absent.
\<close>

theorem getDatabaseDocID_document_key:
  "fst (getDatabaseDocID d r w) = document_key (config d) r"
  by (simp add: getDatabaseDocID_def document_key_def GetValueForField_def GetId_def Let_def
      split: option.split)

theorem getDatabaseDocID_document_key_witness:
  "fst (getDatabaseDocID (db config_default) record_orders world0) = Inr ''42''
   \<and> fst (getDatabaseDocID (db (config_default\<lparr>DocIDColumn := ''region''\<rparr>))
            record_orders world0) = Inr ''us-east''
   \<and> fst (getDatabaseDocID (db (config_default\<lparr>DocIDColumn := ''missing_field''\<rparr>))
            record_orders world0) = Inl (FieldNotFound ''missing_field'')"
  using getDatabaseDocID_document_key [of "db config_default" record_orders world0]
        getDatabaseDocID_document_key
          [of "db (config_default\<lparr>DocIDColumn := ''region''\<rparr>)" record_orders world0]
        getDatabaseDocID_document_key
          [of "db (config_default\<lparr>DocIDColumn := ''missing_field''\<rparr>)" record_orders world0]
  by (simp add: document_key_def db_def config_default_def record_orders_def)

text \<open>
  C3, as the spec states it, fails when the sink is disconnected and the
  client cannot be created: buildBulkRequest asks for the client before it
  derives anything, GetClient panics, and Insert does not return the
  derivation error of the record that lacks the configured field.
\<close>

theorem Insert_derivation_error_counterexample:
  "derivation_error db_missing record_orders world0 = Some (FieldNotFound ''missing_field'')
   \<and> esClient world0 = None
   \<and> fst (Insert env_down db_missing [record_orders] world0) =
       Panicked (ClientError ''no Elasticsearch node available'')
   \<and> fst (Insert env_down db_missing [record_orders] world0) \<noteq>
       Returned (Some (FieldNotFound ''missing_field''))"
  by (simp add: derivation_error_def sink_defs example_defs)

text \<open>
  C3, amended. For every batch of records in which the derivation of the
  collection name or of the document key fails for some record, no bulk write
  request is submitted; and Insert returns the derivation error of the first
  such record whenever GetClient hands back a client (the sink is connected, or
  the connect succeeds). When GetClient panics, Insert panics with the same
  error.
\<close>

theorem Insert_derivation_error:
  assumes "\<exists>r\<in>set records. derivation_error d r w \<noteq> None"
  shows "Do_calls (snd (Insert e d records w)) = Do_calls w \<and>
         first_derivation_error d records w \<noteq> None \<and>
         fst (Insert e d records w) =
           (case fst (GetClient e d w) of
              Returned client \<Rightarrow> Returned (first_derivation_error d records w)
            | Panicked perr \<Rightarrow> Panicked perr)"
proof -
  from assms obtain err where err: "first_derivation_error d records w = Some err"
    using exists_first_derivation_error [of records d w] by auto
  obtain r w1 where gc: "GetClient e d w = (r, w1)"
    by (cases "GetClient e d w")
  from gc GetClient_traces [of e d w] have w1: "Do_calls w1 = Do_calls w" by simp
  show ?thesis
  proof (cases r)
    case (Panicked perr)
    with gc Insert_Panicked [of e d w perr w1 records] w1 err show ?thesis by simp
  next
    case (Returned client)
    with gc Insert_derivation_fails [of e d w client w1 records err] err
    have "fst (Insert e d records w) = Returned (Some err)"
      and "same_outside w1 (snd (Insert e d records w))" by simp_all
    with same_outside_fields [of w1 "snd (Insert e d records w)"] w1 gc Returned err
    show ?thesis by simp
  qed
qed

theorem Insert_derivation_error_witness:
  "(\<exists>r\<in>set [record_orders]. derivation_error db_missing r world0 \<noteq> None)
   \<and> fst (Insert (env_up response_ok) db_missing [record_orders] world0) =
       Returned (Some (FieldNotFound ''missing_field''))
   \<and> Do_calls (snd (Insert (env_up response_ok) db_missing [record_orders] world0)) = []"
proof -
  have h: "\<exists>r\<in>set [record_orders]. derivation_error db_missing r world0 \<noteq> None"
    by (simp add: derivation_error_def sink_defs example_defs)
  from Insert_derivation_error [OF h, of "env_up response_ok"] h show ?thesis
    by (simp add: derivation_error_def sink_defs example_defs)
qed

text \<open>
  C4. For every Insert call whose bulk write succeeds at the transport level
  (Do was called on the built request and returned a response without an
  error) and whose response reports per-item failures (its error flag is set
  and its list of failed items has a first item), Insert returns an error made
  from the first failed item alone. The result and the world after the call
  do not mention the remaining failed items, and they stay the same when the
  remaining failed items are replaced by any others.
\<close>

theorem Insert_first_item_failure:
  assumes "buildBulkRequest e d records w = (Returned (Inr bulkRequest), w1)"
    and "BulkDo e bulkRequest (BulkTimeout (config d)) = Inr res"
    and "Errors res"
    and "Failed res = f # fs"
  shows "Insert e d records w =
           (Returned (Some (ErrorsNew (Sprintf_v e (item_Error f)))),
            w1\<lparr>Do_calls := Do_calls w1 @ [(bulkRequest, BulkTimeout (config d))]\<rparr>)
         \<and> Insert (e\<lparr>BulkDo := \<lambda>b t. Inr (res\<lparr>Failed := f # fs'\<rparr>)\<rparr>) d records w =
             Insert e d records w"
proof -
  let ?e' = "e\<lparr>BulkDo := \<lambda>b t. Inr (res\<lparr>Failed := f # fs'\<rparr>)\<rparr>"
  have first: "Insert e d records w =
           (Returned (Some (ErrorsNew (Sprintf_v e (item_Error f)))),
            w1\<lparr>Do_calls := Do_calls w1 @ [(bulkRequest, BulkTimeout (config d))]\<rparr>)"
    using Insert_after_build [OF assms(1)] assms(2-4) by simp
  have "buildBulkRequest ?e' d records w = (Returned (Inr bulkRequest), w1)"
    using assms(1) buildBulkRequest_env [of ?e' e d records w] by simp
  from Insert_after_build [OF this] assms(3) first show ?thesis by simp
qed

theorem Insert_first_item_failure_witness:
  "fst (Insert (env_up response_two_failures) (db config_default) [record_orders] world0) =
     Returned (Some (ErrorsNew ''mapper_parsing_exception: bad date''))
   \<and> Failed response_two_failures = [failed_item ''1'' ''bad date'', failed_item ''2'' ''bad number'']"
proof -
  obtain br w1 where
    h: "buildBulkRequest (env_up response_two_failures) (db config_default) [record_orders] world0
          = (Returned (Inr br), w1)"
    by (simp add: sink_defs example_defs)
  have d: "BulkDo (env_up response_two_failures) br (BulkTimeout (config (db config_default)))
             = Inr response_two_failures"
    by (simp add: env_up_def)
  have er: "Errors response_two_failures" by (simp add: response_two_failures_def)
  have fl: "Failed response_two_failures =
              failed_item ''1'' ''bad date'' # [failed_item ''2'' ''bad number'']"
    by (simp add: response_two_failures_def)
  from Insert_first_item_failure [OF h d er fl] fl show ?thesis
    by (simp add: env_up_def render_def failed_item_def)
qed

text \<open>
  C5, as the spec states it, fails when the sink is disconnected and the
  client cannot be created: ReadinessCheck asks for the client before it
  pings, GetClient panics with the connect error, and the caller gets that
  error and no boolean; no ping is made.
\<close>

theorem ReadinessCheck_outcome_counterexample:
  "esClient world0 = None
   \<and> fst (ReadinessCheck env_down (db config_default) world0) =
       Panicked (ClientError ''no Elasticsearch node available'')
   \<and> fst (ReadinessCheck env_down (db config_default) world0) \<noteq> Returned False
   \<and> fst (ReadinessCheck env_down (db config_default) world0) \<noteq> Returned True
   \<and> Ping_calls (snd (ReadinessCheck env_down (db config_default) world0)) = []"
  by (simp add: sink_defs example_defs)

text \<open>
  C5, amended. ReadinessCheck never hands the error of a ping to its caller:
  whenever GetClient hands back a client (the sink is connected, or the
  connect succeeds), for every outcome of the ping call it returns a boolean,
  false after logging the error when the ping fails, and true after logging
  the reported datastore version when the ping succeeds. When GetClient
  panics, ReadinessCheck panics with the same error.
\<close>

theorem ReadinessCheck_outcome:
  "fst (ReadinessCheck e d w) =
     (case fst (GetClient e d w) of
        Returned client \<Rightarrow>
          Returned (case PingDo e client (Host (config d)) of
                      Inl err \<Rightarrow> False
                    | Inr info \<Rightarrow> True)
      | Panicked perr \<Rightarrow> Panicked perr) \<and>
   (\<forall>client w1 err.
      GetClient e d w = (Returned client, w1) \<and>
      PingDo e client (Host (config d)) = Inl err \<longrightarrow>
      ReadinessCheck e d w =
        (Returned False,
         Log (LogError (logger d) err ''error pinging elasticsearch'')
           (w1\<lparr>Ping_calls := Ping_calls w1 @ [(client, Host (config d))]\<rparr>))) \<and>
   (\<forall>client w1 info.
      GetClient e d w = (Returned client, w1) \<and>
      PingDo e client (Host (config d)) = Inr info \<longrightarrow>
      ReadinessCheck e d w =
        (Returned True,
         Log (LogInfo (logger d) (''connected to es version '' @ VersionNumber info))
           (w1\<lparr>Ping_calls := Ping_calls w1 @ [(client, Host (config d))]\<rparr>))) \<and>
   (\<forall>perr w1.
      GetClient e d w = (Panicked perr, w1) \<longrightarrow>
      ReadinessCheck e d w = (Panicked perr, w1))"
proof -
  obtain r w0 where gc: "GetClient e d w = (r, w0)"
    by (cases "GetClient e d w")
  show ?thesis
  proof (cases r)
    case (Panicked perr)
    with gc show ?thesis by (simp add: ReadinessCheck_def)
  next
    case (Returned client)
    with gc show ?thesis
      by (cases "PingDo e client (Host (config d))") (simp_all add: ReadinessCheck_def Let_def)
  qed
qed

theorem ReadinessCheck_outcome_witness:
  "fst (ReadinessCheck env_flaky (db config_default) world0) = Returned False
   \<and> logged (snd (ReadinessCheck env_flaky (db config_default) world0)) =
       [LogError 0 (ClientError ''connection refused'') ''error pinging elasticsearch'']
   \<and> fst (ReadinessCheck (env_up response_ok) (db config_default) world0) = Returned True
   \<and> logged (snd (ReadinessCheck (env_up response_ok) (db config_default) world0)) =
       [LogInfo 0 ''connected to es version 6.8.0'']
   \<and> GetClient env_down (db config_default) world0 =
       (Panicked (ClientError ''no Elasticsearch node available''),
        Log (LogError 0 (ClientError ''no Elasticsearch node available'')
               ''could not init elasticsearch client'')
          (world0\<lparr>NewClient_calls := [''http://localhost:9200'']\<rparr>))
   \<and> fst (ReadinessCheck env_down (db config_default) world0) =
       Panicked (ClientError ''no Elasticsearch node available'')"
proof -
  have h1: "GetClient env_flaky (db config_default) world0 = (Returned 0, world_connected)"
    by (simp add: sink_defs example_defs)
  have h2: "GetClient (env_up response_ok) (db config_default) world0 =
              (Returned 0, world_connected)"
    by (simp add: sink_defs example_defs)
  have h3: "GetClient env_down (db config_default) world0 =
       (Panicked (ClientError ''no Elasticsearch node available''),
        Log (LogError 0 (ClientError ''no Elasticsearch node available'')
               ''could not init elasticsearch client'')
          (world0\<lparr>NewClient_calls := [''http://localhost:9200'']\<rparr>))"
    by (simp add: sink_defs example_defs)
  have p1: "PingDo env_flaky 0 (Host (config (db config_default))) =
              Inl (ClientError ''connection refused'')"
    by (simp add: example_defs)
  have p2: "PingDo (env_up response_ok) 0 (Host (config (db config_default))) =
              Inr \<lparr>VersionNumber = ''6.8.0''\<rparr>"
    by (simp add: example_defs)
  from ReadinessCheck_outcome [of env_flaky "db config_default" world0] h1 p1
  have a: "ReadinessCheck env_flaky (db config_default) world0 =
             (Returned False,
              Log (LogError (logger (db config_default)) (ClientError ''connection refused'')
                     ''error pinging elasticsearch'')
                (world_connected\<lparr>Ping_calls := Ping_calls world_connected @
                   [(0, Host (config (db config_default)))]\<rparr>))"
    by simp
  from ReadinessCheck_outcome [of "env_up response_ok" "db config_default" world0] h2 p2
  have b: "ReadinessCheck (env_up response_ok) (db config_default) world0 =
             (Returned True,
              Log (LogInfo (logger (db config_default))
                     (''connected to es version '' @ VersionNumber \<lparr>VersionNumber = ''6.8.0''\<rparr>))
                (world_connected\<lparr>Ping_calls := Ping_calls world_connected @
                   [(0, Host (config (db config_default)))]\<rparr>))"
    by simp
  from ReadinessCheck_outcome [of env_down "db config_default" world0] h3
  have c: "fst (ReadinessCheck env_down (db config_default) world0) =
             Panicked (ClientError ''no Elasticsearch node available'')"
    by simp
  from a b c h3 show ?thesis
    by (simp add: Log_def db_def world0_def world_connected_def)
qed

text \<open>
  C6. The connection lifecycle is a machine of two states. From DISCONNECTED,
  a use (Insert, ReadinessCheck, GetClient) attempts to connect: on success
  the state is CONNECTED, with the new handle; on failure the use panics, the
  state stays DISCONNECTED and neither a bulk call nor a ping is made. From
  CONNECTED, a use keeps the handle and creates no client. CloseClient leads
  to DISCONNECTED, and a use after it calls the client constructor again. The
  open handles are exactly the one held, so there is at most one at any time.
\<close>

theorem connection_lifecycle:
  "(u \<noteq> UseCloseClient \<and> connection_state w = DISCONNECTED \<and>
    NewClient e (Host (config d)) = None \<longrightarrow>
      panic_of_use e d u w = None \<and>
      connection_state (after_use e d u w) = CONNECTED \<and>
      esClient (after_use e d u w) = Some (length (NewClient_calls w)) \<and>
      NewClient_calls (after_use e d u w) = NewClient_calls w @ [Host (config d)]) \<and>
   (\<forall>err. u \<noteq> UseCloseClient \<and> connection_state w = DISCONNECTED \<and>
      NewClient e (Host (config d)) = Some err \<longrightarrow>
      panic_of_use e d u w = Some err \<and>
      connection_state (after_use e d u w) = DISCONNECTED \<and>
      NewClient_calls (after_use e d u w) = NewClient_calls w @ [Host (config d)] \<and>
      Do_calls (after_use e d u w) = Do_calls w \<and>
      Ping_calls (after_use e d u w) = Ping_calls w) \<and>
   (u \<noteq> UseCloseClient \<and> connection_state w = CONNECTED \<longrightarrow>
      panic_of_use e d u w = None \<and>
      esClient (after_use e d u w) = esClient w \<and>
      NewClient_calls (after_use e d u w) = NewClient_calls w) \<and>
   connection_state (after_use e d UseCloseClient w) = DISCONNECTED \<and>
   (u \<noteq> UseCloseClient \<longrightarrow>
      NewClient_calls (after_use e d u (after_use e' d' UseCloseClient w)) =
        NewClient_calls w @ [Host (config d)]) \<and>
   (one_connection w \<longrightarrow>
      one_connection (after_use e d u w) \<and> length (open_clients (after_use e d u w)) \<le> 1)"
proof -
  have ok: "panic_of_use e d u w = None \<and>
      connection_state (after_use e d u w) = CONNECTED \<and>
      esClient (after_use e d u w) = Some (length (NewClient_calls w)) \<and>
      NewClient_calls (after_use e d u w) = NewClient_calls w @ [Host (config d)]"
    if "u \<noteq> UseCloseClient" "connection_state w = DISCONNECTED"
       "NewClient e (Host (config d)) = None"
  proof -
    from that(2) have "esClient w = None"
      by (simp add: connection_state_def split: option.splits)
    from use_Returned [OF that(1) GetClient_connect_ok [OF this that(3)]]
    show ?thesis by (simp add: connection_state_def)
  qed
  have fail: "panic_of_use e d u w = Some err \<and>
      connection_state (after_use e d u w) = DISCONNECTED \<and>
      NewClient_calls (after_use e d u w) = NewClient_calls w @ [Host (config d)] \<and>
      Do_calls (after_use e d u w) = Do_calls w \<and>
      Ping_calls (after_use e d u w) = Ping_calls w"
    if "u \<noteq> UseCloseClient" "connection_state w = DISCONNECTED"
       "NewClient e (Host (config d)) = Some err" for err
  proof -
    from that(2) have n: "esClient w = None"
      by (simp add: connection_state_def split: option.splits)
    from use_Panicked [OF that(1) GetClient_connect_fail [OF n that(3)]] n
    show ?thesis by (simp add: connection_state_def Log_def)
  qed
  have reuse: "panic_of_use e d u w = None \<and>
      esClient (after_use e d u w) = esClient w \<and>
      NewClient_calls (after_use e d u w) = NewClient_calls w"
    if "u \<noteq> UseCloseClient" "connection_state w = CONNECTED"
  proof -
    from that(2) obtain client where "esClient w = Some client"
      by (auto simp: connection_state_def split: option.splits)
    from use_Returned [OF that(1) GetClient_connected [OF this]]
    show ?thesis by simp
  qed
  have closed: "connection_state (after_use e d UseCloseClient w) = DISCONNECTED"
    for e d
    by (simp add: connection_state_def CloseClient_disconnects)
  have again: "NewClient_calls (after_use e d u (after_use e' d' UseCloseClient w)) =
        NewClient_calls w @ [Host (config d)]" if u: "u \<noteq> UseCloseClient"
  proof -
    let ?w = "CloseClient d' w"
    have n: "esClient ?w = None" and c: "NewClient_calls ?w = NewClient_calls w"
      by (simp_all add: CloseClient_disconnects)
    show ?thesis
    proof (cases "NewClient e (Host (config d))")
      case None
      from use_Returned [OF u GetClient_connect_ok [OF n None]] c show ?thesis by simp
    next
      case (Some err)
      from use_Panicked [OF u GetClient_connect_fail [OF n Some]] c show ?thesis
        by (simp add: Log_def)
    qed
  qed
  have inv: "one_connection (after_use e d u w) \<and> length (open_clients (after_use e d u w)) \<le> 1"
    if "one_connection w"
    using one_connection_use [OF that, of e d u] one_connection_at_most_one by blast
  from ok fail reuse closed again inv show ?thesis by blast
qed

theorem connection_lifecycle_witness:
  "connection_state world0 = DISCONNECTED
   \<and> connection_state
        (after_use (env_up response_ok) (db config_default) (UseInsert [record_orders]) world0) =
       CONNECTED
   \<and> panic_of_use env_down (db config_default) UseReadinessCheck world0 =
       Some (ClientError ''no Elasticsearch node available'')
   \<and> connection_state (after_use env_down (db config_default) UseReadinessCheck world0) =
       DISCONNECTED
   \<and> connection_state world_connected = CONNECTED
   \<and> esClient (after_use env_flaky (db config_default) UseReadinessCheck world_connected) =
       Some 0
   \<and> NewClient_calls (after_use env_flaky (db config_default) UseReadinessCheck world_connected) =
       [''http://localhost:9200'']
   \<and> connection_state (after_use env_down (db config_default) UseCloseClient world_connected) =
       DISCONNECTED
   \<and> NewClient_calls
        (after_use (env_up response_ok) (db config_default) (UseInsert [])
           (after_use env_down (db config_default) UseCloseClient world_connected)) =
       [''http://localhost:9200'', ''http://localhost:9200'']
   \<and> one_connection world_connected
   \<and> one_connection
        (after_use (env_up response_ok) (db config_default) (UseInsert [record_orders])
           world_connected)"
proof -
  let ?d = "db config_default"
  have s0: "connection_state world0 = DISCONNECTED"
    by (simp add: connection_state_def world0_def)
  have s1: "connection_state world_connected = CONNECTED"
    by (simp add: connection_state_def world_connected_def world0_def)
  have up: "NewClient (env_up response_ok) (Host (config ?d)) = None"
    by (simp add: env_up_def)
  have down: "NewClient env_down (Host (config ?d)) =
                Some (ClientError ''no Elasticsearch node available'')"
    by (simp add: env_down_def)
  have inv: "one_connection world_connected"
    by (simp add: one_connection_def world_connected_def world0_def)
  have calls: "NewClient_calls world_connected = [''http://localhost:9200'']"
              "esClient world_connected = Some 0"
              "Host (config ?d) = ''http://localhost:9200''"
    by (simp_all add: world_connected_def world0_def db_def config_default_def)
  from connection_lifecycle
         [where u = "UseInsert [record_orders]" and w = world0 and e = "env_up response_ok"
            and d = ?d and e' = env_down and d' = ?d] s0 up
  have a: "connection_state (after_use (env_up response_ok) ?d (UseInsert [record_orders]) world0)
             = CONNECTED"
    by simp
  from connection_lifecycle
         [where u = UseReadinessCheck and w = world0 and e = env_down
            and d = ?d and e' = env_down and d' = ?d] s0 down
  have b: "panic_of_use env_down ?d UseReadinessCheck world0 =
             Some (ClientError ''no Elasticsearch node available'')"
          "connection_state (after_use env_down ?d UseReadinessCheck world0) = DISCONNECTED"
    by simp_all
  from connection_lifecycle
         [where u = UseReadinessCheck and w = world_connected and e = env_flaky
            and d = ?d and e' = env_down and d' = ?d] s1 calls
  have c: "esClient (after_use env_flaky ?d UseReadinessCheck world_connected) = Some 0"
          "NewClient_calls (after_use env_flaky ?d UseReadinessCheck world_connected) =
             [''http://localhost:9200'']"
          "connection_state (after_use env_down ?d UseCloseClient world_connected) = DISCONNECTED"
    by simp_all
  from connection_lifecycle
         [where u = "UseInsert []" and w = world_connected and e = "env_up response_ok"
            and d = ?d and e' = env_down and d' = ?d] calls
  have r: "NewClient_calls
        (after_use (env_up response_ok) ?d (UseInsert [])
           (after_use env_down ?d UseCloseClient world_connected)) =
       [''http://localhost:9200'', ''http://localhost:9200'']"
    by simp
  from connection_lifecycle
         [where u = "UseInsert [record_orders]" and w = world_connected
            and e = "env_up response_ok" and d = ?d and e' = env_down and d' = ?d] inv
  have i: "one_connection
        (after_use (env_up response_ok) ?d (UseInsert [record_orders]) world_connected)"
    by simp
  from s0 s1 a b c r inv i show ?thesis by simp
qed

text \<open>
  C7. For every record written by Insert, the document body submitted to the
  datastore is the record's field set minus the blacklisted field names: the
  request that Insert hands to Do holds one document per record, in order, and
  each document has no blacklisted field and has every other field of its
  record, with the record's value.
\<close>

theorem Insert_document_body:
  assumes "buildBulkRequest e d records w = (Returned (Inr bulkRequest), w1)"
  shows "Do_calls (snd (Insert e d records w)) =
           Do_calls w @ [(bulkRequest, BulkTimeout (config d))] \<and>
         length (requests bulkRequest) = length records \<and>
         (\<forall>i<length records. \<forall>name.
            req_Doc (requests bulkRequest ! i) name =
              (if name \<in> set (BlacklistedColumns (config d)) then None
               else field_set (records ! i) name))"
proof -
  from buildBulkRequest_Inr [OF assms]
  have gc: "GetClient e d w = (Returned (bs_client bulkRequest), w1)"
    and docs: "map req_Doc (requests bulkRequest) =
                 map (\<lambda>r. FilteredFieldsJSON r (BlacklistedColumns (config d))) records"
    by simp_all
  from gc GetClient_traces [of e d w] have "Do_calls w1 = Do_calls w" by simp
  with Insert_after_build [OF assms]
  have sent: "Do_calls (snd (Insert e d records w)) =
                Do_calls w @ [(bulkRequest, BulkTimeout (config d))]" by simp
  from docs have len: "length (requests bulkRequest) = length records"
    using length_map [of req_Doc "requests bulkRequest"] by simp
  have "req_Doc (requests bulkRequest ! i) name =
          (if name \<in> set (BlacklistedColumns (config d)) then None
           else field_set (records ! i) name)" if "i < length records" for i name
  proof -
    from that len have "req_Doc (requests bulkRequest ! i) = map req_Doc (requests bulkRequest) ! i"
      by simp
    also from docs that
    have "\<dots> = FilteredFieldsJSON (records ! i) (BlacklistedColumns (config d))" by simp
    finally show ?thesis by (simp add: FilteredFieldsJSON_def restrict_map_def)
  qed
  with sent len show ?thesis by blast
qed

theorem Insert_document_body_witness:
  "\<exists>bulkRequest.
     Do_calls (snd (Insert (env_up response_ok) db_blacklist [record_orders] world0)) =
       [(bulkRequest, 10)]
     \<and> field_set record_orders ''secret'' = Some ''x''
     \<and> req_Doc (requests bulkRequest ! 0) ''secret'' = None
     \<and> req_Doc (requests bulkRequest ! 0) ''region'' = Some ''us-east''"
proof -
  obtain br w1 where
    h: "buildBulkRequest (env_up response_ok) db_blacklist [record_orders] world0
          = (Returned (Inr br), w1)"
    by (simp add: sink_defs example_defs)
  from Insert_document_body [OF h]
  have "Do_calls (snd (Insert (env_up response_ok) db_blacklist [record_orders] world0)) =
          [(br, 10)]"
    and "req_Doc (requests br ! 0) ''secret'' = None"
    and "req_Doc (requests br ! 0) ''region'' = Some ''us-east''"
    by (simp_all add: example_defs)
  moreover have "field_set record_orders ''secret'' = Some ''x''"
    by (simp add: record_orders_def)
  ultimately show ?thesis by blast
qed

text \<open>
  C8. The derivations of the collection name and of the document key are
  functions of the record and the configuration alone: whatever the world and
  the logger, two derivations for the same record and configuration give the
  same collection name, the same key and the same error, and a derivation
  changes nothing of the world but the log.
\<close>

theorem derivation_deterministic:
  assumes "config d' = config d"
  shows "fst (getDatabaseIndex d' r w') = fst (getDatabaseIndex d r w) \<and>
         fst (getDatabaseDocID d' r w') = fst (getDatabaseDocID d r w) \<and>
         same_outside w (snd (getDatabaseIndex d r w)) \<and>
         same_outside w (snd (getDatabaseDocID d r w))"
proof -
  have "same_outside w (snd (getDatabaseIndex d r w))"
    by (simp add: getDatabaseIndex_world same_outside_refl same_outside_Log split: sum.split)
  moreover have "same_outside w (snd (getDatabaseDocID d r w))"
    by (simp add: getDatabaseDocID_world same_outside_refl same_outside_Log split: sum.split)
  ultimately show ?thesis
    using assms by (simp add: getDatabaseIndex_value getDatabaseDocID_value)
qed

theorem derivation_deterministic_witness:
  "config db_missing = config db_missing
   \<and> fst (getDatabaseIndex db_missing record_orders world0) = Inl (FieldNotFound ''missing_field'')
   \<and> fst (getDatabaseIndex db_missing record_orders
            (snd (getDatabaseIndex db_missing record_orders world0))) =
       Inl (FieldNotFound ''missing_field'')
   \<and> fst (getDatabaseDocID db_missing record_orders world0) = Inr ''42''
   \<and> fst (getDatabaseDocID db_missing record_orders
            (snd (getDatabaseDocID db_missing record_orders world0))) = Inr ''42''"
proof -
  have c: "config db_missing = config db_missing" by simp
  have i: "fst (getDatabaseIndex db_missing record_orders world0) =
             Inl (FieldNotFound ''missing_field'')"
    by (simp add: sink_defs example_defs)
  have k: "fst (getDatabaseDocID db_missing record_orders world0) = Inr ''42''"
    by (simp add: sink_defs example_defs)
  from derivation_deterministic
         [OF c, of record_orders "snd (getDatabaseIndex db_missing record_orders world0)" world0]
       derivation_deterministic
         [OF c, of record_orders "snd (getDatabaseDocID db_missing record_orders world0)" world0]
       i k
  show ?thesis by simp
qed

text \<open>
  C9, as the spec states it, fails when the sink is disconnected and the
  client cannot be created: Insert on the empty batch panics in GetClient and
  no bulk call is issued.
\<close>

theorem Insert_empty_counterexample:
  "esClient world0 = None
   \<and> fst (Insert env_down (db config_default) [] world0) =
       Panicked (ClientError ''no Elasticsearch node available'')
   \<and> Do_calls (snd (Insert env_down (db config_default) [] world0)) = []"
  by (simp add: sink_defs example_defs)

text \<open>
  C9, amended. When Insert is called with an empty sequence of records and
  GetClient hands back a client (the sink is connected, or the connect
  succeeds), derivation trivially succeeds and the bulk call is still issued:
  Insert does not return early, it calls Do on a bulk request that holds no
  requests.
\<close>

theorem Insert_empty:
  assumes "GetClient e d w = (Returned client, w1)"
  shows "first_derivation_error d [] w = None \<and>
         requests (Bulk client) = [] \<and>
         Do_calls (snd (Insert e d [] w)) =
           Do_calls w @ [(Bulk client, BulkTimeout (config d))]"
proof -
  from assms have "buildBulkRequest e d [] w = (Returned (Inr (Bulk client)), w1)"
    by (simp add: buildBulkRequest_def)
  from Insert_after_build [OF this] assms GetClient_traces [of e d w]
  show ?thesis by (simp add: Bulk_def)
qed

theorem Insert_empty_witness:
  "GetClient (env_up response_ok) (db config_default) world0 =
     (Returned 0,
      world0\<lparr>NewClient_calls := [''http://localhost:9200''], esClient := Some 0,
             open_clients := [0]\<rparr>)
   \<and> Do_calls (snd (Insert (env_up response_ok) (db config_default) [] world0)) =
       [(\<lparr>bs_client = 0, requests = []\<rparr>, 10)]"
proof -
  have h: "GetClient (env_up response_ok) (db config_default) world0 =
     (Returned 0,
      world0\<lparr>NewClient_calls := [''http://localhost:9200''], esClient := Some 0,
             open_clients := [0]\<rparr>)"
    by (simp add: sink_defs example_defs)
  from Insert_empty [OF h] h show ?thesis
    by (simp add: Bulk_def example_defs)
qed

text \<open>
  C10. If the bulk write succeeds at the transport level and the response's
  error flag is set but its list of failed items is empty, Insert returns
  success: no error reaches the caller.
\<close>

theorem Insert_flag_without_items:
  assumes "buildBulkRequest e d records w = (Returned (Inr bulkRequest), w1)"
    and "BulkDo e bulkRequest (BulkTimeout (config d)) = Inr res"
    and "Errors res"
    and "Failed res = []"
  shows "fst (Insert e d records w) = Returned None"
  using Insert_after_build [OF assms(1)] assms(2-4) by simp

theorem Insert_flag_without_items_witness:
  "Errors response_flag_only \<and> Failed response_flag_only = []
   \<and> fst (Insert (env_up response_flag_only) (db config_default) [record_orders] world0) =
       Returned None"
proof -
  obtain br w1 where
    h: "buildBulkRequest (env_up response_flag_only) (db config_default) [record_orders] world0
          = (Returned (Inr br), w1)"
    by (simp add: sink_defs example_defs)
  have d: "BulkDo (env_up response_flag_only) br (BulkTimeout (config (db config_default)))
             = Inr response_flag_only"
    by (simp add: env_up_def)
  have er: "Errors response_flag_only" by (simp add: response_flag_only_def)
  have fl: "Failed response_flag_only = []" by (simp add: response_flag_only_def)
  from Insert_flag_without_items [OF h d er fl] er fl show ?thesis by simp
qed

end
